theory Spec2Isabelle
  imports Complex_Main
begin

section \<open>The real-time core: ThreeSistersSVFProcessor\<close>

text \<open>
  The processor of \<^verbatim>\<open>src/audio/ThreeSistersSVF.js\<close> is embedded with explicit state
  passing. JavaScript numbers are idealised as real numbers: the embedding captures the
  arithmetic the code writes down, not IEEE rounding, infinities or NaN. Instance fields
  \<^verbatim>\<open>this._x\<close> become record fields \<open>this_x\<close>; the local variables of \<^verbatim>\<open>process\<close>
  keep their names.
\<close>

record processor =
  this_lowS1 :: real
  this_lowS2 :: real
  this_centreS1 :: real
  this_centreS2 :: real
  this_highS1 :: real
  this_highS2 :: real
  this_lowAlpha1 :: real
  this_centreAlpha1 :: real
  this_highAlpha1 :: real
  this_alpha2 :: real
  this_feedback :: real
  this_span :: real
  this_centreFreq :: real
  this_sampleRate :: real
  this_recalc :: bool

text \<open>The constructor; the global \<^verbatim>\<open>sampleRate\<close> of the worklet scope is its argument.\<close>

definition constructor :: "real \<Rightarrow> processor" where
  "constructor sampleRate =
     \<lparr> this_lowS1 = 0, this_lowS2 = 0,
       this_centreS1 = 0, this_centreS2 = 0,
       this_highS1 = 0, this_highS2 = 0,
       this_lowAlpha1 = 0, this_centreAlpha1 = 0, this_highAlpha1 = 0,
       this_alpha2 = 1 / 8,
       this_feedback = 0.05,
       this_span = 300,
       this_centreFreq = 600,
       this_sampleRate = sampleRate,
       this_recalc = True \<rparr>"

text \<open>
  A message on the port: \<^verbatim>\<open>event.data\<close>. A field that is \<^verbatim>\<open>undefined\<close> (absent) is
  \<open>None\<close>.
\<close>

record message =
  data_type :: string
  data_center :: "real option"
  data_span :: "real option"
  data_q :: "real option"
  data_feedback :: "real option"

definition onmessage :: "message \<Rightarrow> processor \<Rightarrow> processor" where
  "onmessage data this =
     (if data_type data = ''update'' then
        let this = (case data_center data of None \<Rightarrow> this
                    | Some v \<Rightarrow> this\<lparr>this_centreFreq := v\<rparr>);
            this = (case data_span data of None \<Rightarrow> this
                    | Some v \<Rightarrow> this\<lparr>this_span := v\<rparr>);
            this = (case data_q data of None \<Rightarrow> this
                    | Some v \<Rightarrow> this\<lparr>this_alpha2 := 1 / max 0.0001 v\<rparr>);
            this = (case data_feedback data of None \<Rightarrow> this
                    | Some v \<Rightarrow> this\<lparr>this_feedback := v\<rparr>)
        in this\<lparr>this_recalc := True\<rparr>
      else this)"

subsection \<open>Coefficient recomputation\<close>

text \<open>The three local constants of \<^verbatim>\<open>_updateCoefficients\<close>, in the order the code computes them.\<close>

definition nyq :: "processor \<Rightarrow> real" where
  "nyq this = this_sampleRate this * 0.45"

definition centre :: "processor \<Rightarrow> real" where
  "centre this = min (nyq this) (max 20 (this_centreFreq this))"

definition lowF :: "processor \<Rightarrow> real" where
  "lowF this = min (nyq this) (max 20 (centre this - this_span this))"

definition highF :: "processor \<Rightarrow> real" where
  "highF this = min (nyq this) (max 20 (centre this + this_span this))"

definition updateCoefficients :: "processor \<Rightarrow> processor" where
  "updateCoefficients this =
     this\<lparr> this_lowAlpha1 := 2 * sin (pi * lowF this / this_sampleRate this),
           this_centreAlpha1 := 2 * sin (pi * centre this / this_sampleRate this),
           this_highAlpha1 := 2 * sin (pi * highF this / this_sampleRate this),
           this_recalc := False \<rparr>"

subsection \<open>The DSP loop\<close>

text \<open>The six local copies of the band state that the loop of \<^verbatim>\<open>process\<close> updates.\<close>

record locals =
  lowS1 :: real
  lowS2 :: real
  centreS1 :: real
  centreS2 :: real
  highS1 :: real
  highS2 :: real

text \<open>
  The body of the \<^verbatim>\<open>for\<close> loop for one input sample \<open>x\<close>: the updated locals and the value
  written to \<^verbatim>\<open>outCh[i]\<close>.
\<close>

definition sample_body ::
  "real \<Rightarrow> real \<Rightarrow> real \<Rightarrow> real \<Rightarrow> real \<Rightarrow> real \<Rightarrow> locals \<Rightarrow> locals \<times> real" where
  "sample_body lowA centreA highA alpha2 fb x v =
     (let sumBP = lowS1 v + centreS1 v + highS1 v;
          sharedDrive = x + sumBP * fb;
          driveLow = sharedDrive + highS1 v * fb;
          driveCentre = sharedDrive + lowS1 v * fb;
          driveHigh = sharedDrive + centreS1 v * fb;
          hp = driveLow - lowS2 v - alpha2 * lowS1 v;
          bp = lowA * hp + lowS1 v;
          lp = lowA * bp + lowS2 v;
          v = v\<lparr>lowS1 := bp\<rparr>;
          v = v\<lparr>lowS2 := lp\<rparr>;
          lowBP = bp;
          hp = driveCentre - centreS2 v - alpha2 * centreS1 v;
          bp = centreA * hp + centreS1 v;
          lp = centreA * bp + centreS2 v;
          v = v\<lparr>centreS1 := bp\<rparr>;
          v = v\<lparr>centreS2 := lp\<rparr>;
          centreBP = bp;
          hp = driveHigh - highS2 v - alpha2 * highS1 v;
          bp = highA * hp + highS1 v;
          lp = highA * bp + highS2 v;
          v = v\<lparr>highS1 := bp\<rparr>;
          v = v\<lparr>highS2 := lp\<rparr>;
          highBP = bp
      in (v, (lowBP + centreBP + highBP) / 3))"

text \<open>
  The loop \<^verbatim>\<open>for (let i = 0; i < inCh.length; i++)\<close>. The output channel is a typed
  array: a write beyond its length is ignored, which is what list update does.
\<close>

function sample_loop ::
  "real \<Rightarrow> real \<Rightarrow> real \<Rightarrow> real \<Rightarrow> real \<Rightarrow> real list \<Rightarrow> nat \<Rightarrow> locals \<Rightarrow> real list
     \<Rightarrow> locals \<times> real list" where
  "sample_loop lowA centreA highA alpha2 fb inCh i v outCh =
     (if i < length inCh then
        (case sample_body lowA centreA highA alpha2 fb (inCh ! i) v of
           (v', y) \<Rightarrow> sample_loop lowA centreA highA alpha2 fb inCh (Suc i) v' (outCh[i := y]))
      else (v, outCh))"
  by pat_completeness auto
termination
  by (relation "measure (\<lambda>(lowA, centreA, highA, alpha2, fb, inCh, i, v, outCh). length inCh - i)")
     auto

declare sample_loop.simps [simp del]

datatype js_error = TypeError

text \<open>
  \<^verbatim>\<open>process (inputs, outputs, parameters)\<close>. An input or output is a list of channels, a
  channel a list of samples; \<^verbatim>\<open>parameters\<close> maps a parameter name to its array of
  values. The result is what the call returns or throws, the processor afterwards and
  the output buffers afterwards. \<^verbatim>\<open>inputs[0]\<close> of an empty list is \<^verbatim>\<open>undefined\<close>;
  reading \<^verbatim>\<open>output[0]\<close> of an undefined \<^verbatim>\<open>output\<close>, and writing to an undefined
  \<^verbatim>\<open>outCh\<close>, throw a TypeError.
\<close>

definition load_locals :: "processor \<Rightarrow> locals" where
  "load_locals this =
     \<lparr> lowS1 = this_lowS1 this, lowS2 = this_lowS2 this,
       centreS1 = this_centreS1 this, centreS2 = this_centreS2 this,
       highS1 = this_highS1 this, highS2 = this_highS2 this \<rparr>"

definition store_locals :: "locals \<Rightarrow> processor \<Rightarrow> processor" where
  "store_locals v this =
     this\<lparr> this_lowS1 := lowS1 v, this_lowS2 := lowS2 v,
           this_centreS1 := centreS1 v, this_centreS2 := centreS2 v,
           this_highS1 := highS1 v, this_highS2 := highS2 v \<rparr>"

definition process ::
  "processor \<Rightarrow> real list list list \<Rightarrow> real list list list \<Rightarrow> (string \<rightharpoonup> real list)
     \<Rightarrow> (js_error + bool) \<times> processor \<times> real list list list" where
  "process this inputs outputs parameters =
     (case inputs of
        [] \<Rightarrow> (Inr True, this, outputs)
      | input # _ \<Rightarrow>
        (case input of
           [] \<Rightarrow> (Inr True, this, outputs)
         | inCh # _ \<Rightarrow>
           (case outputs of
              [] \<Rightarrow> (Inl TypeError, this, outputs)
            | output # outputs_rest \<Rightarrow>
                let this = (if this_recalc this then updateCoefficients this else this);
                    v = load_locals this;
                    lowA = this_lowAlpha1 this;
                    centreA = this_centreAlpha1 this;
                    highA = this_highAlpha1 this;
                    alpha2 = this_alpha2 this;
                    fb = this_feedback this
                in (case output of
                      [] \<Rightarrow>
                        (if 0 < length inCh then (Inl TypeError, this, outputs)
                         else (Inr True, store_locals v this, outputs))
                    | outCh # output_rest \<Rightarrow>
                        (case sample_loop lowA centreA highA alpha2 fb inCh 0 v outCh of
                           (v', outCh') \<Rightarrow>
                             (Inr True, store_locals v' this,
                              (outCh' # output_rest) # outputs_rest))))))"



section \<open>The node facade: ThreeSistersSVF\<close>

text \<open>
  \<^verbatim>\<open>this._options\<close>, the underlying AudioWorkletNode (its four AudioParam values; \<open>None\<close>
  is \<^verbatim>\<open>null\<close>), the messages posted on the node's port so far (oldest first), whether
  \<^verbatim>\<open>this.input\<close> is still connected, and the flag that \<^verbatim>\<open>super.dispose()\<close> of the Tone
  base class sets. Tone.js and the Web Audio objects are outside the repository: an
  AudioParam is a cell that holds the assigned value.
\<close>

record options =
  opt_center :: real
  opt_span :: real
  opt_q :: real
  opt_feedback :: real

record worklet_node =
  param_center :: real
  param_span :: real
  param_q :: real
  param_feedback :: real
  node_connected :: bool

record svf =
  svf_options :: options
  svf_workletNode :: "worklet_node option"
  svf_posted :: "message list"
  svf_input_connected :: bool
  svf_disposed :: bool

definition update_message :: message where
  "update_message =
     \<lparr> data_type = ''update'', data_center = None, data_span = None, data_q = None,
       data_feedback = None \<rparr>"

text \<open>The constructor merges the caller's options over the defaults; the node is not yet created.\<close>

definition svf_constructor ::
  "real option \<Rightarrow> real option \<Rightarrow> real option \<Rightarrow> real option \<Rightarrow> svf" where
  "svf_constructor center span_v q feedback =
     \<lparr> svf_options =
         \<lparr> opt_center = (case center of None \<Rightarrow> 600 | Some v \<Rightarrow> v),
           opt_span = (case span_v of None \<Rightarrow> 300 | Some v \<Rightarrow> v),
           opt_q = (case q of None \<Rightarrow> 8 | Some v \<Rightarrow> v),
           opt_feedback = (case feedback of None \<Rightarrow> 0.05 | Some v \<Rightarrow> v) \<rparr>,
       svf_workletNode = None,
       svf_posted = [],
       svf_input_connected = False,
       svf_disposed = False \<rparr>"

text \<open>
  \<^verbatim>\<open>_initWorklet\<close>, once its promise has settled; \<open>supported\<close> says whether the context
  offers an AudioWorklet. Loading the module is the host's business and is taken to
  succeed.
\<close>

datatype init_error = NotSupported

definition initWorklet :: "bool \<Rightarrow> svf \<Rightarrow> init_error + svf" where
  "initWorklet supported this =
     (if \<not> supported then Inl NotSupported
      else Inr (this\<lparr> svf_workletNode :=
                        Some \<lparr> param_center = opt_center (svf_options this),
                               param_span = opt_span (svf_options this),
                               param_q = opt_q (svf_options this),
                               param_feedback = opt_feedback (svf_options this),
                               node_connected = True \<rparr>,
                      svf_input_connected := True \<rparr>))"

definition get_center :: "svf \<Rightarrow> real" where
  "get_center this = opt_center (svf_options this)"

definition set_center :: "real \<Rightarrow> svf \<Rightarrow> svf" where
  "set_center val this =
     (let this = this\<lparr>svf_options := (svf_options this)\<lparr>opt_center := val\<rparr>\<rparr>
      in case svf_workletNode this of
           None \<Rightarrow> this
         | Some node \<Rightarrow>
             this\<lparr> svf_workletNode := Some (node\<lparr>param_center := val\<rparr>),
                   svf_posted := svf_posted this @ [update_message\<lparr>data_center := Some val\<rparr>] \<rparr>)"

definition get_span :: "svf \<Rightarrow> real" where
  "get_span this = opt_span (svf_options this)"

definition set_span :: "real \<Rightarrow> svf \<Rightarrow> svf" where
  "set_span val this =
     (let this = this\<lparr>svf_options := (svf_options this)\<lparr>opt_span := val\<rparr>\<rparr>
      in case svf_workletNode this of
           None \<Rightarrow> this
         | Some node \<Rightarrow>
             this\<lparr> svf_workletNode := Some (node\<lparr>param_span := val\<rparr>),
                   svf_posted := svf_posted this @ [update_message\<lparr>data_span := Some val\<rparr>] \<rparr>)"

definition get_q :: "svf \<Rightarrow> real" where
  "get_q this = opt_q (svf_options this)"

definition set_q :: "real \<Rightarrow> svf \<Rightarrow> svf" where
  "set_q val this =
     (let this = this\<lparr>svf_options := (svf_options this)\<lparr>opt_q := val\<rparr>\<rparr>
      in case svf_workletNode this of
           None \<Rightarrow> this
         | Some node \<Rightarrow>
             this\<lparr> svf_workletNode := Some (node\<lparr>param_q := val\<rparr>),
                   svf_posted := svf_posted this @ [update_message\<lparr>data_q := Some val\<rparr>] \<rparr>)"

definition get_feedback :: "svf \<Rightarrow> real" where
  "get_feedback this = opt_feedback (svf_options this)"

definition set_feedback :: "real \<Rightarrow> svf \<Rightarrow> svf" where
  "set_feedback val this =
     (let this = this\<lparr>svf_options := (svf_options this)\<lparr>opt_feedback := val\<rparr>\<rparr>
      in case svf_workletNode this of
           None \<Rightarrow> this
         | Some node \<Rightarrow>
             this\<lparr> svf_workletNode := Some (node\<lparr>param_feedback := val\<rparr>),
                   svf_posted :=
                     svf_posted this @ [update_message\<lparr>data_feedback := Some val\<rparr>] \<rparr>)"

definition update :: "real \<Rightarrow> real \<Rightarrow> svf \<Rightarrow> svf" where
  "update center span_v this = set_span span_v (set_center center this)"

definition dispose :: "svf \<Rightarrow> svf" where
  "dispose this =
     (let this = this\<lparr>svf_disposed := True\<rparr>
      in case svf_workletNode this of
           None \<Rightarrow> this
         | Some node \<Rightarrow>
             this\<lparr> svf_posted := svf_posted this @ [update_message\<lparr>data_feedback := Some 0\<rparr>],
                   svf_input_connected := False,
                   svf_workletNode := None \<rparr>)"

section \<open>The fallback bank: SimpleThreeBandFilter\<close>

text \<open>
  \<^verbatim>\<open>this._options\<close> and, for each of the three Tone.Filter stages, the values held by its
  \<^verbatim>\<open>frequency\<close> and \<^verbatim>\<open>Q\<close> signals. \<^verbatim>\<open>resolveBaseAudioContext()\<close> enters as \<open>raw\<close>:
  the sample rate of the context it finds, or \<open>None\<close> when it returns \<^verbatim>\<open>null\<close>.
\<close>

record simple_options =
  sopt_center :: real
  sopt_span :: real
  sopt_q :: real

record simple_filter =
  sf_options :: simple_options
  low_frequency :: real
  centre_frequency :: real
  high_frequency :: real
  low_Q :: real
  centre_Q :: real
  high_Q :: real

definition updateFrequencies :: "real option \<Rightarrow> simple_filter \<Rightarrow> simple_filter" where
  "updateFrequencies raw this =
     (let nyquist = (case raw of None \<Rightarrow> 20000
                     | Some sampleRate \<Rightarrow> if sampleRate \<noteq> 0 then sampleRate / 2 else 20000);
          centre = min nyquist (max 20 (sopt_center (sf_options this)));
          span = max 0 (sopt_span (sf_options this));
          low = max 20 (centre - span);
          high = min nyquist (centre + span)
      in this\<lparr>low_frequency := low, centre_frequency := centre, high_frequency := high\<rparr>)"

definition updateQ :: "simple_filter \<Rightarrow> simple_filter" where
  "updateQ this =
     (let q = max 0.5 (sopt_q (sf_options this))
      in this\<lparr>low_Q := q, centre_Q := q, high_Q := q\<rparr>)"

definition simple_get_center :: "simple_filter \<Rightarrow> real" where
  "simple_get_center this = sopt_center (sf_options this)"

definition simple_set_center :: "real option \<Rightarrow> real \<Rightarrow> simple_filter \<Rightarrow> simple_filter" where
  "simple_set_center raw val this =
     updateFrequencies raw (this\<lparr>sf_options := (sf_options this)\<lparr>sopt_center := val\<rparr>\<rparr>)"

definition simple_get_span :: "simple_filter \<Rightarrow> real" where
  "simple_get_span this = sopt_span (sf_options this)"

definition simple_set_span :: "real option \<Rightarrow> real \<Rightarrow> simple_filter \<Rightarrow> simple_filter" where
  "simple_set_span raw val this =
     updateFrequencies raw (this\<lparr>sf_options := (sf_options this)\<lparr>sopt_span := val\<rparr>\<rparr>)"

definition simple_get_q :: "simple_filter \<Rightarrow> real" where
  "simple_get_q this = sopt_q (sf_options this)"

definition simple_set_q :: "real \<Rightarrow> simple_filter \<Rightarrow> simple_filter" where
  "simple_set_q val this = updateQ (this\<lparr>sf_options := (sf_options this)\<lparr>sopt_q := val\<rparr>\<rparr>)"

section \<open>Notions of the specification\<close>

text \<open>\<open>clamp(x, lo, hi)\<close> as the specification writes it.\<close>

definition clamp :: "real \<Rightarrow> real \<Rightarrow> real \<Rightarrow> real" where
  "clamp x lo hi = max lo (min hi x)"

text \<open>
  One band of the specification, section 4.2: from the band's coefficients, its drive and
  its old pair \<open>(s1, s2)\<close>, the new pair \<open>(bp, lp)\<close>.
\<close>

definition spec_band :: "real \<Rightarrow> real \<Rightarrow> real \<Rightarrow> real \<times> real \<Rightarrow> real \<times> real" where
  "spec_band alpha1 alpha2 drive s =
     (let hp = drive - snd s - alpha2 * fst s;
          bp = alpha1 * hp + fst s;
          lp = alpha1 * bp + snd s
      in (bp, lp))"

text \<open>
  One sample of the specification: every drive is formed from the old \<open>s1\<close> values, each
  band is stepped, and the output is the mean of the three new band-pass values.
\<close>

definition spec_sample ::
  "real \<Rightarrow> real \<Rightarrow> real \<Rightarrow> real \<Rightarrow> real \<Rightarrow> real \<Rightarrow> locals \<Rightarrow> locals \<times> real" where
  "spec_sample lowA centreA highA alpha2 fb x v =
     (let sharedDrive = x + fb * (lowS1 v + centreS1 v + highS1 v);
          low = spec_band lowA alpha2 (sharedDrive + highS1 v * fb) (lowS1 v, lowS2 v);
          mid = spec_band centreA alpha2 (sharedDrive + lowS1 v * fb) (centreS1 v, centreS2 v);
          high = spec_band highA alpha2 (sharedDrive + centreS1 v * fb) (highS1 v, highS2 v)
      in (\<lparr> lowS1 = fst low, lowS2 = snd low,
             centreS1 = fst mid, centreS2 = snd mid,
             highS1 = fst high, highS2 = snd high \<rparr>,
          (fst low + fst mid + fst high) / 3))"

text \<open>A block of the specification: the samples in order, the outputs collected.\<close>

fun spec_block ::
  "real \<Rightarrow> real \<Rightarrow> real \<Rightarrow> real \<Rightarrow> real \<Rightarrow> locals \<Rightarrow> real list \<Rightarrow> locals \<times> real list" where
  "spec_block lowA centreA highA alpha2 fb v [] = (v, [])"
| "spec_block lowA centreA highA alpha2 fb v (x # xs) =
     (case spec_sample lowA centreA highA alpha2 fb x v of
        (v', y) \<Rightarrow>
          (case spec_block lowA centreA highA alpha2 fb v' xs of
             (v'', ys) \<Rightarrow> (v'', y # ys)))"







text \<open>The accumulator pair of each band of a processor.\<close>

definition low_band :: "processor \<Rightarrow> real \<times> real" where
  "low_band this = (this_lowS1 this, this_lowS2 this)"

definition centre_band :: "processor \<Rightarrow> real \<times> real" where
  "centre_band this = (this_centreS1 this, this_centreS2 this)"

definition high_band :: "processor \<Rightarrow> real \<times> real" where
  "high_band this = (this_highS1 this, this_highS2 this)"


text \<open>
  The processor as the next non-empty block will use it: \<^verbatim>\<open>if (this._recalc)
  this._updateCoefficients()\<close>.
\<close>

definition current :: "processor \<Rightarrow> processor" where
  "current this = (if this_recalc this then updateCoefficients this else this)"

section \<open>Concrete instances\<close>

text \<open>
  A processor at 48 kHz that has received centre 8000 Hz and span 0, so that every band
  is tuned to a sixth of the sample rate; resonance and feedback are the defaults.
\<close>

definition example_processor :: processor where
  "example_processor =
     onmessage (update_message\<lparr>data_center := Some 8000, data_span := Some 0\<rparr>)
       (constructor 48000)"



text \<open>A facade with default options whose worklet node has been created.\<close>

definition ready_example :: svf where
  "ready_example =
     (case initWorklet True (svf_constructor None None None None) of
        Inr this \<Rightarrow> this
      | Inl e \<Rightarrow> svf_constructor None None None None)"

text \<open>A fallback bank with default options, before its first parameter write.\<close>

definition simple_example :: simple_filter where
  "simple_example =
     \<lparr> sf_options = \<lparr> sopt_center = 600, sopt_span = 300, sopt_q = 8 \<rparr>,
       low_frequency = 600, centre_frequency = 600, high_frequency = 600,
       low_Q = 1, centre_Q = 1, high_Q = 1 \<rparr>"


section \<open>The loop against the specification\<close>

lemma sample_body_spec:
  "sample_body lowA centreA highA alpha2 fb x v = spec_sample lowA centreA highA alpha2 fb x v"
  by (simp add: sample_body_def spec_sample_def spec_band_def Let_def algebra_simps)

lemma sample_loop_spec:
  "length outCh = length inCh \<Longrightarrow> i \<le> length inCh \<Longrightarrow>
   sample_loop lowA centreA highA alpha2 fb inCh i v outCh =
     (case spec_block lowA centreA highA alpha2 fb v (drop i inCh) of
        (v', ys) \<Rightarrow> (v', take i outCh @ ys))"
proof (induction lowA centreA highA alpha2 fb inCh i v outCh rule: sample_loop.induct)
  case (1 lowA centreA highA alpha2 fb inCh i v outCh)
  show ?case
  proof (cases "i < length inCh")
    case False
    with 1(2,3) show ?thesis
      by (subst sample_loop.simps) simp
  next
    case True
    obtain v' y where sb: "sample_body lowA centreA highA alpha2 fb (inCh ! i) v = (v', y)"
      by (cases "sample_body lowA centreA highA alpha2 fb (inCh ! i) v")
    have d: "drop i inCh = inCh ! i # drop (Suc i) inCh"
      using True by (simp add: Cons_nth_drop_Suc)
    have ih: "sample_loop lowA centreA highA alpha2 fb inCh (Suc i) v' (outCh[i := y]) =
       (case spec_block lowA centreA highA alpha2 fb v' (drop (Suc i) inCh) of
          (v'', ys) \<Rightarrow> (v'', take (Suc i) (outCh[i := y]) @ ys))"
      using 1(1) [OF True sb [symmetric]] 1(2) True by simp
    have t: "take (Suc i) (outCh[i := y]) = take i outCh @ [y]"
      using True 1(2) by (simp add: take_Suc_conv_app_nth)
    show ?thesis
      using True sb ih t
      by (subst sample_loop.simps)
         (simp add: d sample_body_spec [symmetric] split: prod.splits)
  qed
qed

lemma sample_loop_fst:
  "fst (sample_loop lowA centreA highA alpha2 fb inCh i v outCh) =
     foldl (\<lambda>v x. fst (sample_body lowA centreA highA alpha2 fb x v)) v (drop i inCh)"
proof (induction lowA centreA highA alpha2 fb inCh i v outCh rule: sample_loop.induct)
  case (1 lowA centreA highA alpha2 fb inCh i v outCh)
  show ?case
  proof (cases "i < length inCh")
    case False
    then show ?thesis
      by (subst sample_loop.simps) simp
  next
    case True
    obtain v' y where sb: "sample_body lowA centreA highA alpha2 fb (inCh ! i) v = (v', y)"
      by (cases "sample_body lowA centreA highA alpha2 fb (inCh ! i) v")
    have d: "drop i inCh = inCh ! i # drop (Suc i) inCh"
      using True by (simp add: Cons_nth_drop_Suc)
    show ?thesis
      using True sb 1 [OF True sb [symmetric]]
      by (subst sample_loop.simps) (simp add: d)
  qed
qed

lemma load_locals_updateCoefficients [simp]:
  "load_locals (updateCoefficients this) = load_locals this"
  by (simp add: load_locals_def updateCoefficients_def)

lemma current_fields [simp]:
  "this_alpha2 (current this) = this_alpha2 this"
  "this_feedback (current this) = this_feedback this"
  "load_locals (current this) = load_locals this"
  "\<not> this_recalc (current this)"
  by (simp_all add: current_def updateCoefficients_def load_locals_def)

lemma current_idem [simp]: "current (current this) = current this"
  by (simp add: current_def updateCoefficients_def)


lemma process_block_state:
  "fst (snd (process this ((inCh # chs) # ins) ((outCh # ochs) # outs) parameters)) =
     store_locals
       (foldl (\<lambda>v x. fst (sample_body (this_lowAlpha1 (current this))
                 (this_centreAlpha1 (current this)) (this_highAlpha1 (current this))
                 (this_alpha2 (current this)) (this_feedback (current this)) x v))
          (load_locals this) inCh)
       (current this)"
proof -
  have "load_locals (current this) = load_locals this"
    by simp
  then show ?thesis
    using sample_loop_fst [of "this_lowAlpha1 (current this)" "this_centreAlpha1 (current this)"
       "this_highAlpha1 (current this)" "this_alpha2 (current this)"
       "this_feedback (current this)" inCh 0 "load_locals this" outCh]
    by (auto simp: process_def Let_def current_def [symmetric] split: prod.splits)
qed

lemma process_current:
  "process this ((inCh # chs) # ins) (output # outs) parameters =
   process (current this) ((inCh # chs) # ins) (output # outs) parameters"
  by (simp add: process_def current_def updateCoefficients_def)

lemma example_processor_current:
  "current example_processor =
     \<lparr> this_lowS1 = 0, this_lowS2 = 0,
       this_centreS1 = 0, this_centreS2 = 0,
       this_highS1 = 0, this_highS2 = 0,
       this_lowAlpha1 = 1, this_centreAlpha1 = 1, this_highAlpha1 = 1,
       this_alpha2 = 1 / 8,
       this_feedback = 1 / 20,
       this_span = 0,
       this_centreFreq = 8000,
       this_sampleRate = 48000,
       this_recalc = False \<rparr>"
  by (simp add: example_processor_def current_def updateCoefficients_def onmessage_def
        update_message_def constructor_def Let_def lowF_def highF_def centre_def nyq_def sin_30)

text \<open>
  Claim C1. For a render quantum (one input channel and an output channel of the same
  length) \<^verbatim>\<open>process\<close> returns \<^verbatim>\<open>true\<close> and does to the band state and to the output
  channel what the block of the specification does with the coefficients in force: for
  each sample the shared drive from \<open>x\<close> and the three old \<open>s1\<close> values, the per-band
  drives with the cross-feedback high to low, low to centre, centre to high, the band
  step \<open>hp, bp, lp\<close> with \<open>s1 := bp\<close>, \<open>s2 := lp\<close>, and the mean of the three \<open>bp\<close> as output.
\<close>

theorem process_render_quantum:
  assumes "inputs = (inCh # chs) # ins"
    and "outputs = (outCh # ochs) # outs"
    and "length outCh = length inCh"
  shows "process this inputs outputs parameters =
     (Inr True,
      store_locals
        (fst (spec_block (this_lowAlpha1 (current this)) (this_centreAlpha1 (current this))
                (this_highAlpha1 (current this)) (this_alpha2 this) (this_feedback this)
                (load_locals this) inCh))
        (current this),
      (snd (spec_block (this_lowAlpha1 (current this)) (this_centreAlpha1 (current this))
                (this_highAlpha1 (current this)) (this_alpha2 this) (this_feedback this)
                (load_locals this) inCh) # ochs) # outs)"
proof -
  have "process this inputs outputs parameters =
          process (current this) inputs outputs parameters"
    unfolding assms(1,2) by (rule process_current)
  also have "\<dots> =
     (Inr True,
      store_locals
        (fst (spec_block (this_lowAlpha1 (current this)) (this_centreAlpha1 (current this))
                (this_highAlpha1 (current this)) (this_alpha2 this) (this_feedback this)
                (load_locals this) inCh))
        (current this),
      (snd (spec_block (this_lowAlpha1 (current this)) (this_centreAlpha1 (current this))
                (this_highAlpha1 (current this)) (this_alpha2 this) (this_feedback this)
                (load_locals this) inCh) # ochs) # outs)"
    using assms sample_loop_spec [of outCh inCh 0 "this_lowAlpha1 (current this)"
       "this_centreAlpha1 (current this)" "this_highAlpha1 (current this)"
       "this_alpha2 this" "this_feedback this" "load_locals this"]
    by (simp add: process_def Let_def split: prod.splits)
  finally show ?thesis .
qed

theorem process_render_quantum_witness:
  "process example_processor [[[1, 0]]] [[[0, 0]]] Map.empty =
     (Inr True,
      (current example_processor)
        \<lparr> this_lowS1 := 3 / 40, this_lowS2 := 43 / 40,
          this_centreS1 := 3 / 40, this_centreS2 := 43 / 40,
          this_highS1 := 3 / 40, this_highS2 := 43 / 40 \<rparr>,
      [[[1, 3 / 40]]])"
proof -
  have a: "this_alpha2 example_processor = 1 / 8" "this_feedback example_processor = 1 / 20"
    "load_locals example_processor =
       \<lparr> lowS1 = 0, lowS2 = 0, centreS1 = 0, centreS2 = 0, highS1 = 0, highS2 = 0 \<rparr>"
    by (simp_all add: example_processor_def onmessage_def update_message_def constructor_def
          Let_def load_locals_def)
  have c: "this_lowAlpha1 (current example_processor) = 1"
    "this_centreAlpha1 (current example_processor) = 1"
    "this_highAlpha1 (current example_processor) = 1"
    by (simp_all add: example_processor_current)
  show ?thesis
    using process_render_quantum [of "[[[1, 0]]]" "[1, 0]" "[]" "[]" "[[[0, 0]]]" "[0, 0]" "[]" "[]"
            example_processor Map.empty]
    by (simp add: a c spec_sample_def spec_band_def store_locals_def Let_def)
qed

section \<open>Messages, skipped blocks and the block boundary\<close>

text \<open>
  Claim C5. Coefficients change only between blocks. Every update message sets the dirty
  flag. A call of \<^verbatim>\<open>process\<close> on a non-empty input leaves as coefficients those of
  \<open>current this\<close>, which are recomputed from the configuration when the flag was set and
  the old ones otherwise, clears the flag, and steps the band state through all samples
  of the block with that one set of coefficients. With the flag clear no call of
  \<^verbatim>\<open>process\<close> changes a coefficient.
\<close>

theorem coefficients_recomputed_between_blocks:
  "(data_type data = ''update'' \<longrightarrow> this_recalc (onmessage data this))
   \<and> current this = (if this_recalc this then updateCoefficients this else this)
   \<and> (inputs = (inCh # chs) # ins \<and> outputs = (outCh # ochs) # outs \<longrightarrow>
        (let this' = fst (snd (process this inputs outputs parameters))
         in this_lowAlpha1 this' = this_lowAlpha1 (current this)
          \<and> this_centreAlpha1 this' = this_centreAlpha1 (current this)
          \<and> this_highAlpha1 this' = this_highAlpha1 (current this)
          \<and> this_alpha2 this' = this_alpha2 this
          \<and> \<not> this_recalc this'
          \<and> load_locals this' =
              foldl (\<lambda>v x. fst (sample_body (this_lowAlpha1 (current this))
                                   (this_centreAlpha1 (current this))
                                   (this_highAlpha1 (current this))
                                   (this_alpha2 this) (this_feedback this) x v))
                (load_locals this) inCh))
   \<and> (\<not> this_recalc this \<longrightarrow>
        (let this' = fst (snd (process this inputs outputs parameters))
         in this_lowAlpha1 this' = this_lowAlpha1 this
          \<and> this_centreAlpha1 this' = this_centreAlpha1 this
          \<and> this_highAlpha1 this' = this_highAlpha1 this
          \<and> this_alpha2 this' = this_alpha2 this))"
proof (intro conjI impI)
  assume "data_type data = ''update''"
  then show "this_recalc (onmessage data this)"
    by (simp add: onmessage_def Let_def)
next
  show "current this = (if this_recalc this then updateCoefficients this else this)"
    by (rule current_def)
next
  assume a: "inputs = (inCh # chs) # ins \<and> outputs = (outCh # ochs) # outs"
  have p: "fst (snd (process this inputs outputs parameters)) =
     store_locals
       (foldl (\<lambda>v x. fst (sample_body (this_lowAlpha1 (current this))
                 (this_centreAlpha1 (current this)) (this_highAlpha1 (current this))
                 (this_alpha2 this) (this_feedback this) x v))
          (load_locals this) inCh)
       (current this)"
    using a process_block_state [of this inCh chs ins outCh ochs outs parameters] by simp
  show "let this' = fst (snd (process this inputs outputs parameters))
         in this_lowAlpha1 this' = this_lowAlpha1 (current this)
          \<and> this_centreAlpha1 this' = this_centreAlpha1 (current this)
          \<and> this_highAlpha1 this' = this_highAlpha1 (current this)
          \<and> this_alpha2 this' = this_alpha2 this
          \<and> \<not> this_recalc this'
          \<and> load_locals this' =
              foldl (\<lambda>v x. fst (sample_body (this_lowAlpha1 (current this))
                                   (this_centreAlpha1 (current this))
                                   (this_highAlpha1 (current this))
                                   (this_alpha2 this) (this_feedback this) x v))
                (load_locals this) inCh"
    unfolding Let_def p by (simp add: store_locals_def load_locals_def)
next
  assume "\<not> this_recalc this"
  then show "let this' = fst (snd (process this inputs outputs parameters))
         in this_lowAlpha1 this' = this_lowAlpha1 this
          \<and> this_centreAlpha1 this' = this_centreAlpha1 this
          \<and> this_highAlpha1 this' = this_highAlpha1 this
          \<and> this_alpha2 this' = this_alpha2 this"
    by (simp add: process_def Let_def store_locals_def split: list.splits prod.splits)
qed

theorem coefficients_recomputed_between_blocks_witness:
  "this_recalc (onmessage (update_message\<lparr>data_q := Some 4\<rparr>) (current example_processor))
   \<and> this_recalc example_processor
   \<and> this_lowAlpha1 example_processor = 0
   \<and> this_lowAlpha1 (fst (snd (process example_processor [[[1, 0]]] [[[0, 0]]] Map.empty))) = 1
   \<and> \<not> this_recalc (fst (snd (process example_processor [[[1, 0]]] [[[0, 0]]] Map.empty)))
   \<and> this_lowAlpha1
        (fst (snd (process (current example_processor) [[[1, 0]]] [[[0, 0]]] Map.empty))) = 1"
proof -
  have a: "this_recalc example_processor" "this_lowAlpha1 example_processor = 0"
    by (simp_all add: example_processor_def onmessage_def update_message_def constructor_def
          Let_def)
  have b: "this_lowAlpha1 (current example_processor) = 1"
    by (simp add: example_processor_current)
  note fresh = coefficients_recomputed_between_blocks
            [where data = "update_message\<lparr>data_q := Some 4\<rparr>"
               and this = example_processor
               and inputs = "[[[1, 0]]]" and inCh = "[1, 0]" and chs = "[]" and ins = "[]"
               and outputs = "[[[0, 0]]]" and outCh = "[0, 0]" and ochs = "[]" and outs = "[]"
               and parameters = Map.empty]
  note settled = coefficients_recomputed_between_blocks
            [where data = "update_message\<lparr>data_q := Some 4\<rparr>"
               and this = "current example_processor"
               and inputs = "[[[1, 0]]]" and inCh = "[1, 0]" and chs = "[]" and ins = "[]"
               and outputs = "[[[0, 0]]]" and outCh = "[0, 0]" and ochs = "[]" and outs = "[]"
               and parameters = Map.empty]
  have c: "this_recalc (onmessage (update_message\<lparr>data_q := Some 4\<rparr>)
             (current example_processor))"
    using settled [THEN conjunct1] by (simp add: update_message_def)
  have d: "this_lowAlpha1
             (fst (snd (process example_processor [[[1, 0]]] [[[0, 0]]] Map.empty))) = 1"
    "\<not> this_recalc (fst (snd (process example_processor [[[1, 0]]] [[[0, 0]]] Map.empty)))"
    using fresh [THEN conjunct2, THEN conjunct2, THEN conjunct1] by (simp_all add: Let_def b)
  have e: "this_lowAlpha1
        (fst (snd (process (current example_processor) [[[1, 0]]] [[[0, 0]]] Map.empty))) = 1"
    using settled [THEN conjunct2, THEN conjunct2, THEN conjunct2] by (simp add: Let_def b)
  show ?thesis
    using a c d e by simp
qed

text \<open>
  Claim C6. An update message changes exactly the parameters whose fields it carries:
  centre frequency, span and feedback take the value sent, the damping takes
  \<open>1 / max 0.0001 q\<close> for the \<open>q\<close> sent, and a parameter whose field is absent keeps its
  value; band state, frequency coefficients and sample rate are untouched.
\<close>

theorem onmessage_partial_update:
  assumes "data_type data = ''update''"
  shows "this_centreFreq (onmessage data this) =
           (case data_center data of None \<Rightarrow> this_centreFreq this | Some v \<Rightarrow> v)
       \<and> this_span (onmessage data this) =
           (case data_span data of None \<Rightarrow> this_span this | Some v \<Rightarrow> v)
       \<and> this_alpha2 (onmessage data this) =
           (case data_q data of None \<Rightarrow> this_alpha2 this | Some v \<Rightarrow> 1 / max 0.0001 v)
       \<and> this_feedback (onmessage data this) =
           (case data_feedback data of None \<Rightarrow> this_feedback this | Some v \<Rightarrow> v)
       \<and> load_locals (onmessage data this) = load_locals this
       \<and> this_lowAlpha1 (onmessage data this) = this_lowAlpha1 this
       \<and> this_centreAlpha1 (onmessage data this) = this_centreAlpha1 this
       \<and> this_highAlpha1 (onmessage data this) = this_highAlpha1 this
       \<and> this_sampleRate (onmessage data this) = this_sampleRate this"
  using assms
  by (simp add: onmessage_def Let_def load_locals_def split: option.splits)

theorem onmessage_partial_update_witness:
  "data_type (update_message\<lparr>data_span := Some 100, data_q := Some 4\<rparr>) = ''update''
   \<and> this_centreFreq
        (onmessage (update_message\<lparr>data_span := Some 100, data_q := Some 4\<rparr>)
           (constructor 48000)) = 600
   \<and> this_span
        (onmessage (update_message\<lparr>data_span := Some 100, data_q := Some 4\<rparr>)
           (constructor 48000)) = 100
   \<and> this_alpha2
        (onmessage (update_message\<lparr>data_span := Some 100, data_q := Some 4\<rparr>)
           (constructor 48000)) = 1 / 4
   \<and> this_feedback
        (onmessage (update_message\<lparr>data_span := Some 100, data_q := Some 4\<rparr>)
           (constructor 48000)) = 1 / 20"
proof -
  have t: "data_type (update_message\<lparr>data_span := Some 100, data_q := Some 4\<rparr>) = ''update''"
    by (simp add: update_message_def)
  show ?thesis
    using onmessage_partial_update [OF t, of "constructor 48000"] t
    by (simp add: update_message_def constructor_def)
qed

text \<open>
  Claim C7. When the first input is absent or has no channel, \<^verbatim>\<open>process\<close> returns
  \<^verbatim>\<open>true\<close> and changes nothing: band state, coefficients, dirty flag and output buffers
  are as before.
\<close>

theorem process_skips_absent_or_empty_input:
  assumes "inputs = [] \<or> hd inputs = []"
  shows "process this inputs outputs parameters = (Inr True, this, outputs)"
  using assms
  by (auto simp: process_def split: list.splits)

theorem process_skips_absent_or_empty_input_witness:
  "process example_processor [] [[[7]]] Map.empty = (Inr True, example_processor, [[[7]]])
   \<and> process example_processor [[]] [[[7]]] Map.empty = (Inr True, example_processor, [[[7]]])"
  using process_skips_absent_or_empty_input [of "[]" example_processor "[[[7]]]" Map.empty]
        process_skips_absent_or_empty_input [of "[[]]" example_processor "[[[7]]]" Map.empty]
  by simp

text \<open>
  Claim C10. \<^verbatim>\<open>process\<close> never reads its \<^verbatim>\<open>parameters\<close> argument: two calls that differ
  only in it return the same result, the same processor and the same output buffers.
\<close>

theorem process_ignores_parameters:
  "process this inputs outputs parameters1 = process this inputs outputs parameters2"
  by (simp add: process_def)

theorem process_ignores_parameters_witness:
  "process example_processor [[[1, 0]]] [[[0, 0]]] [''q'' \<mapsto> [100], ''feedback'' \<mapsto> [1]] =
   process example_processor [[[1, 0]]] [[[0, 0]]] Map.empty"
  by (rule process_ignores_parameters)


section \<open>Clamping: where the code does it\<close>

text \<open>
  Claim C2, as the code has it. For a span that is not negative and a sample rate with
  \<open>20 \<le> 0.45 * sampleRate\<close>, the band frequencies that \<^verbatim>\<open>_updateCoefficients\<close> uses satisfy
  \<open>20 \<le> low \<le> centre \<le> high \<le> 0.45 * sampleRate\<close>, where \<open>centre\<close> is the clamped
  centre frequency and \<open>low\<close> and \<open>high\<close> are the clamped \<open>centre - span\<close> and
  \<open>centre + span\<close>, taken from the clamped centre and not from the centre frequency as
  set.
\<close>

theorem band_frequencies_ordered:
  assumes "0 \<le> this_span this" and "20 \<le> 0.45 * this_sampleRate this"
  shows "20 \<le> lowF this \<and> lowF this \<le> centre this \<and> centre this \<le> highF this
       \<and> highF this \<le> 0.45 * this_sampleRate this
       \<and> centre this = clamp (this_centreFreq this) 20 (0.45 * this_sampleRate this)
       \<and> lowF this = clamp (centre this - this_span this) 20 (0.45 * this_sampleRate this)
       \<and> highF this = clamp (centre this + this_span this) 20 (0.45 * this_sampleRate this)
       \<and> this_lowAlpha1 (updateCoefficients this) = 2 * sin (pi * lowF this / this_sampleRate this)
       \<and> this_centreAlpha1 (updateCoefficients this) =
           2 * sin (pi * centre this / this_sampleRate this)
       \<and> this_highAlpha1 (updateCoefficients this) =
           2 * sin (pi * highF this / this_sampleRate this)"
  using assms
  by (simp add: lowF_def highF_def centre_def nyq_def clamp_def updateCoefficients_def
                min_def max_def)

theorem band_frequencies_ordered_witness:
  "0 \<le> this_span (constructor 48000)
   \<and> 20 \<le> 0.45 * this_sampleRate (constructor 48000)
   \<and> lowF (constructor 48000) = 300
   \<and> centre (constructor 48000) = 600
   \<and> highF (constructor 48000) = 900"
proof -
  have a: "0 \<le> this_span (constructor 48000)"
    and b: "20 \<le> 0.45 * this_sampleRate (constructor 48000)"
    by (simp_all add: constructor_def)
  have c: "this_span (constructor 48000) = 300" "this_centreFreq (constructor 48000) = 600"
    "this_sampleRate (constructor 48000) = 48000"
    by (simp_all add: constructor_def)
  show ?thesis
    using band_frequencies_ordered [OF a b] a b
    by (simp add: c clamp_def)
qed

text \<open>
  The claim as the specification states it fails: with the centre frequency set to 10 Hz
  and the span to 5 Hz at 48 kHz the high band is at 25 Hz, not at
  \<open>clamp(10 + 5, 20, 21600) = 20\<close> Hz.
\<close>

theorem band_frequencies_counterexample:
  "highF (onmessage (update_message\<lparr>data_center := Some 10, data_span := Some 5\<rparr>)
            (constructor 48000)) = 25
   \<and> clamp (10 + 5) 20 (0.45 * 48000) = 20
   \<and> highF (onmessage (update_message\<lparr>data_center := Some 10, data_span := Some 5\<rparr>)
            (constructor 48000)) \<noteq> clamp (10 + 5) 20 (0.45 * 48000)"
  by (simp add: highF_def centre_def nyq_def clamp_def onmessage_def update_message_def
                constructor_def Let_def)

text \<open>
  Claim C3, as the code has it. A \<open>q\<close> that arrives in an update message sets the damping
  of the real-time core to \<open>1 / max(q, 0.0001)\<close>; the \<open>q\<close> setter of the fallback bank
  gives every stage the resonance \<open>max(q, 0.5)\<close>.
\<close>

theorem damping_from_q:
  "this_alpha2 (onmessage (data\<lparr>data_type := ''update'', data_q := Some q\<rparr>) this) =
     1 / max q 0.0001
   \<and> low_Q (simple_set_q q sf) = max q 0.5
   \<and> centre_Q (simple_set_q q sf) = max q 0.5
   \<and> high_Q (simple_set_q q sf) = max q 0.5"
  by (simp add: onmessage_def Let_def simple_set_q_def updateQ_def max.commute
           split: option.splits)

theorem damping_from_q_witness:
  "this_alpha2 (onmessage (update_message\<lparr>data_type := ''update'', data_q := Some 4\<rparr>)
                  (constructor 48000)) = 1 / 4
   \<and> low_Q (simple_set_q 0.2 simple_example) = 0.5"
  using damping_from_q [where data = update_message and q = 4 and this = "constructor 48000"
                          and sf = simple_example]
        damping_from_q [where data = update_message and q = "0.2" and this = "constructor 48000"
                          and sf = simple_example]
  by simp

text \<open>
  The claim as the specification states it fails for the real-time core: \<open>q = 0.05\<close>
  gives the damping 20, whereas \<open>1 / max(0.05, 0.1)\<close> is 10.
\<close>

theorem damping_counterexample:
  "this_alpha2 (onmessage (update_message\<lparr>data_q := Some 0.05\<rparr>) (constructor 48000)) = 20
   \<and> 1 / max 0.05 0.1 = (10 :: real)"
  by (simp add: onmessage_def update_message_def constructor_def Let_def)

section \<open>The facades\<close>

text \<open>
  Claim C4, as the code has it. After a setter of the node facade (centre, span, q,
  feedback) or of the fallback bank (centre, span, q) has been called with \<open>v\<close>, the
  getter returns \<open>v\<close> itself, unclamped. For a range from \<open>lo\<close> to \<open>hi\<close> with \<open>lo \<le> hi\<close>
  the value returned is therefore \<open>v\<close> clamped into the range exactly when \<open>v\<close> already
  lies in it.
\<close>

theorem getter_returns_value_set:
  "get_center (set_center v this) = v
   \<and> get_span (set_span v this) = v
   \<and> get_q (set_q v this) = v
   \<and> get_feedback (set_feedback v this) = v
   \<and> simple_get_center (simple_set_center raw v sf) = v
   \<and> simple_get_span (simple_set_span raw v sf) = v
   \<and> simple_get_q (simple_set_q v sf) = v
   \<and> (lo \<le> v \<and> v \<le> hi \<longrightarrow>
        get_center (set_center v this) = clamp v lo hi
        \<and> get_span (set_span v this) = clamp v lo hi
        \<and> get_q (set_q v this) = clamp v lo hi
        \<and> get_feedback (set_feedback v this) = clamp v lo hi)
   \<and> (lo \<le> hi \<longrightarrow>
        (get_center (set_center v this) = clamp v lo hi) = (lo \<le> v \<and> v \<le> hi)
        \<and> (get_span (set_span v this) = clamp v lo hi) = (lo \<le> v \<and> v \<le> hi)
        \<and> (get_q (set_q v this) = clamp v lo hi) = (lo \<le> v \<and> v \<le> hi)
        \<and> (get_feedback (set_feedback v this) = clamp v lo hi) = (lo \<le> v \<and> v \<le> hi)
        \<and> (simple_get_center (simple_set_center raw v sf) = clamp v lo hi)
            = (lo \<le> v \<and> v \<le> hi)
        \<and> (simple_get_span (simple_set_span raw v sf) = clamp v lo hi)
            = (lo \<le> v \<and> v \<le> hi)
        \<and> (simple_get_q (simple_set_q v sf) = clamp v lo hi) = (lo \<le> v \<and> v \<le> hi))"
proof -
  have same: "get_center (set_center v this) = v" "get_span (set_span v this) = v"
    "get_q (set_q v this) = v" "get_feedback (set_feedback v this) = v"
    "simple_get_center (simple_set_center raw v sf) = v"
    "simple_get_span (simple_set_span raw v sf) = v"
    "simple_get_q (simple_set_q v sf) = v"
    by (simp_all add: get_center_def set_center_def get_span_def set_span_def get_q_def
          set_q_def get_feedback_def set_feedback_def simple_get_center_def
          simple_set_center_def simple_get_span_def simple_set_span_def simple_get_q_def
          simple_set_q_def updateFrequencies_def updateQ_def Let_def
        split: option.splits)
  have inside: "v = clamp v lo hi" if "lo \<le> v \<and> v \<le> hi"
    using that by (simp add: clamp_def)
  have exact: "(v = clamp v lo hi) = (lo \<le> v \<and> v \<le> hi)" if "lo \<le> hi"
    using that by (auto simp: clamp_def max_def min_def)
  show ?thesis
    unfolding same using inside exact by blast
qed

theorem getter_returns_value_set_witness:
  "(0 :: real) \<le> 1 / 2 \<and> (1 / 2 :: real) \<le> 1
   \<and> get_feedback (set_feedback (1 / 2) ready_example) = 1 / 2
   \<and> get_feedback (set_feedback (1 / 2) ready_example) = clamp (1 / 2) 0 1
   \<and> simple_get_q (simple_set_q (1 / 2) simple_example) = 1 / 2"
  using getter_returns_value_set [where v = "1 / 2" and this = ready_example and raw = None
                                    and sf = simple_example and lo = 0 and hi = 1]
  by (simp add: clamp_def)

text \<open>
  The claim as the specification states it fails: on a facade whose worklet node exists,
  setting the feedback to 2 makes the getter return 2, while the feedback clamped to its
  range \<open>[0, 1]\<close> is 1.
\<close>

theorem getter_clamp_counterexample:
  "svf_workletNode ready_example \<noteq> None
   \<and> get_feedback (set_feedback 2 ready_example) = 2
   \<and> clamp 2 0 1 = 1"
  by (simp add: ready_example_def initWorklet_def svf_constructor_def get_feedback_def
                set_feedback_def clamp_def Let_def)

text \<open>
  Claim C9, as the code has it. After \<^verbatim>\<open>dispose\<close> the worklet node is \<^verbatim>\<open>null\<close>, and a
  setter of the node facade then returns normally, posts no message and changes nothing
  but the stored option, which it does overwrite with the value given.
\<close>

theorem setters_after_dispose:
  "svf_workletNode (dispose this) = None
   \<and> set_center v (dispose this) =
       (dispose this)\<lparr>svf_options := (svf_options (dispose this))\<lparr>opt_center := v\<rparr>\<rparr>
   \<and> set_span v (dispose this) =
       (dispose this)\<lparr>svf_options := (svf_options (dispose this))\<lparr>opt_span := v\<rparr>\<rparr>
   \<and> set_q v (dispose this) =
       (dispose this)\<lparr>svf_options := (svf_options (dispose this))\<lparr>opt_q := v\<rparr>\<rparr>
   \<and> set_feedback v (dispose this) =
       (dispose this)\<lparr>svf_options := (svf_options (dispose this))\<lparr>opt_feedback := v\<rparr>\<rparr>
   \<and> svf_posted (set_center v (dispose this)) = svf_posted (dispose this)
   \<and> svf_posted (set_span v (dispose this)) = svf_posted (dispose this)
   \<and> svf_posted (set_q v (dispose this)) = svf_posted (dispose this)
   \<and> svf_posted (set_feedback v (dispose this)) = svf_posted (dispose this)"
  by (simp add: dispose_def set_center_def set_span_def set_q_def set_feedback_def Let_def
           split: option.splits)

theorem setters_after_dispose_witness:
  "svf_posted (set_q 3 (dispose ready_example)) = [update_message\<lparr>data_feedback := Some 0\<rparr>]
   \<and> svf_workletNode (set_q 3 (dispose ready_example)) = None
   \<and> get_q (set_q 3 (dispose ready_example)) = 3"
proof -
  have d: "dispose ready_example =
     \<lparr> svf_options = \<lparr> opt_center = 600, opt_span = 300, opt_q = 8, opt_feedback = 0.05 \<rparr>,
       svf_workletNode = None,
       svf_posted = [update_message\<lparr>data_feedback := Some 0\<rparr>],
       svf_input_connected = False,
       svf_disposed = True \<rparr>"
    by (simp add: ready_example_def initWorklet_def svf_constructor_def dispose_def Let_def)
  show ?thesis
    using setters_after_dispose [where this = ready_example and v = 3]
    by (simp add: d get_q_def)
qed

text \<open>
  The claim as the specification states it fails: a disposed facade answers 600 for its
  centre, and 1000 after the centre has been set to 1000.
\<close>

theorem setter_after_dispose_counterexample:
  "svf_disposed (dispose ready_example)
   \<and> get_center (dispose ready_example) = 600
   \<and> get_center (set_center 1000 (dispose ready_example)) = 1000"
  by (simp add: ready_example_def initWorklet_def svf_constructor_def dispose_def
                get_center_def set_center_def Let_def)


section \<open>Silence without feedback\<close>






lemma current_band_state:
  "this_lowS1 (current this) = this_lowS1 this" "this_lowS2 (current this) = this_lowS2 this"
  "this_centreS1 (current this) = this_centreS1 this"
  "this_centreS2 (current this) = this_centreS2 this"
  "this_highS1 (current this) = this_highS1 this" "this_highS2 (current this) = this_highS2 this"
  by (simp_all add: current_def updateCoefficients_def)



















lemma load_store_locals [simp]: "load_locals (store_locals v this) = v"
  by (cases v) (simp add: load_locals_def store_locals_def)

lemma store_store_locals [simp]: "store_locals w (store_locals v this) = store_locals w this"
  by (simp add: store_locals_def)

lemma store_load_locals [simp]: "store_locals (load_locals this) this = this"
  by (simp add: load_locals_def store_locals_def)

lemma store_locals_fields [simp]:
  "this_recalc (store_locals v this) = this_recalc this"
  "this_feedback (store_locals v this) = this_feedback this"
  "this_alpha2 (store_locals v this) = this_alpha2 this"
  "this_lowAlpha1 (store_locals v this) = this_lowAlpha1 this"
  "this_centreAlpha1 (store_locals v this) = this_centreAlpha1 this"
  "this_highAlpha1 (store_locals v this) = this_highAlpha1 this"
  "low_band (store_locals v this) = (lowS1 v, lowS2 v)"
  "centre_band (store_locals v this) = (centreS1 v, centreS2 v)"
  "high_band (store_locals v this) = (highS1 v, highS2 v)"
  by (simp_all add: store_locals_def low_band_def centre_band_def high_band_def)




lemma current_bands [simp]:
  "low_band (current this) = low_band this"
  "centre_band (current this) = centre_band this"
  "high_band (current this) = high_band this"
  by (simp_all add: low_band_def centre_band_def high_band_def current_band_state)












end
